theory Spec2Isabelle
  imports Main
begin

section \<open>Data model of the chat service\<close>

text \<open>
  The streaming chat session of the application consists of the class \<open>ChatInterface\<close>
  (the model session client, exported by the module \<open>services/geminiChat\<close>) and of
  the React hook \<open>useGeminiChat\<close> (the chat session manager). Both are embedded here
  as pure functions on explicit state.

  Strings are lists of characters; a character stands for one code unit below 256.
  \<open>Date.now()\<close> and \<open>Math.random()\<close> are inputs of the environment: every
  operation that reads the clock takes the value read as an argument. A template string
  such as \<open>`user_${Date.now()}`\<close> is kept in structured form, the prefix being the
  constructor.
\<close>

datatype role = User | Assistant | System

datatype messageId =
    UserId nat            \<comment> \<open>\<open>`user_${Date.now()}`\<close>\<close>
  | AssistantId nat       \<comment> \<open>\<open>`assistant_${Date.now()}`\<close>\<close>
  | MsgId nat string      \<comment> \<open>\<open>`msg_${Date.now()}_${Math.random()...}`\<close>\<close>

record ChatMessage =
  role :: role
  content :: string
  timestamp :: nat
  messageId :: messageId

record ChatResponse =
  success :: bool
  message :: "string option"
  resp_messageId :: "messageId option"
  resp_error :: "string option"
  processTime :: "int option"

text \<open>A JavaScript \<open>Error\<close>: its \<open>name\<close> and its \<open>message\<close>.\<close>

datatype Error = Error (errName: string) (errMessage: string)

text \<open>
  A handler that the caller may pass. \<open>None\<close>: the handler is absent. \<open>Some f\<close>: it is
  present, and \<open>f x\<close> is what a call of it with the argument \<open>x\<close> does: \<open>None\<close> when
  the call returns, \<open>Some e\<close> when it throws \<open>e\<close>. What a call does is taken to
  depend on its argument alone.
\<close>

type_synonym 'a handler = "('a \<Rightarrow> Error option) option"

text \<open>
  \<open>StreamCallbacks\<close>: each handler is optional in the interface, and the client tests
  each one before it calls it.
\<close>

record StreamCallbacks =
  cbTokenReceived :: "string handler"
  cbProgress :: "nat handler"
  cbComplete :: "string handler"
  cbError :: "Error handler"

record SendMessageOptions =
  sm_role :: role
  sm_content :: string
  stream :: bool
  callbacks :: "StreamCallbacks option"

record ErrorHandling =
  retries :: int
  fallbackMessage :: string

text \<open>
  The fields of \<open>ChatInterface\<close> that its control flow reads. The API key, the model
  name, the temperature, the token limit and the system prompt only parametrise the remote
  model and are left out; the remote chat session \<open>this.chat\<close> is the transport below.
\<close>

record ChatInterface =
  messageHistory :: bool
  errorHandling :: ErrorHandling
  conversationHistory :: "ChatMessage list"

subsection \<open>The remote model as a script of attempts\<close>

text \<open>
  One call of \<open>this.chat.sendMessageStream\<close> (or \<open>this.chat.sendMessage\<close>) either
  runs to its end or throws. \<open>Completes cs t r\<close>: the stream yields the chunks \<open>cs\<close>
  and ends; \<open>t\<close> is the clock at that moment and \<open>r\<close> the random suffix of the next
  generated id. \<open>Throws cs e\<close>: the stream yields \<open>cs\<close> and then throws \<open>e\<close>
  (with \<open>cs = []\<close> when the call itself throws). For the non-streaming call the text
  of the response is the concatenation of \<open>cs\<close>. A transport gives the outcome of the
  \<open>k\<close>-th attempt of one \<open>sendMessage\<close> call.
\<close>

datatype attempt = Completes "string list" nat string | Throws "string list" Error

type_synonym transport = "nat \<Rightarrow> attempt"

fun fails :: "attempt \<Rightarrow> bool" where
  "fails (Throws cs e) = True"
| "fails (Completes cs t r) = False"

text \<open>
  What the client does to the outside, in order: calls of the transport, calls of the
  caller's handlers, and waits. \<open>OnComplete m t\<close> carries the clock \<open>t\<close> at the moment
  of the call, which the handler of the hook reads with \<open>Date.now()\<close>.
\<close>

datatype effect =
    TransportCall string
  | OnTokenReceived string
  | OnProgress nat
  | OnComplete string nat
  | OnError Error
  | Delay int

section \<open>ChatInterface\<close>

definition generateMessageId :: "nat \<Rightarrow> string \<Rightarrow> messageId" where
  "generateMessageId now rnd = MsgId now rnd"

definition pushHistory :: "ChatMessage \<Rightarrow> ChatInterface \<Rightarrow> ChatInterface" where
  "pushHistory m ci =
     (if messageHistory ci
      then ci\<lparr>conversationHistory := conversationHistory ci @ [m]\<rparr>
      else ci)"

text \<open>\<open>options.callbacks?.onX\<close>: the handler, absent when there are no callbacks.\<close>

definition handlerOf :: "StreamCallbacks option \<Rightarrow> (StreamCallbacks \<Rightarrow> 'a handler) \<Rightarrow> 'a handler" where
  "handlerOf cbs sel = (case cbs of None \<Rightarrow> None | Some c \<Rightarrow> sel c)"

text \<open>
  \<open>if (h) h(x)\<close>: the call made, if any, and the error that the handler throws, if it
  throws.
\<close>

definition invoke :: "'a handler \<Rightarrow> 'a \<Rightarrow> effect \<Rightarrow> effect list \<times> Error option" where
  "invoke h x eff = (case h of None \<Rightarrow> ([], None) | Some f \<Rightarrow> ([eff], f x))"

text \<open>
  The \<open>for await\<close> loop of \<open>handleStreamingResponse\<close>, with its two accumulators
  \<open>fullMessage\<close> and \<open>progress\<close>. The loop ends early when a handler throws; the last
  component is the error thrown.
\<close>

fun streamLoop :: "StreamCallbacks option \<Rightarrow> string list \<Rightarrow> string \<Rightarrow> nat
    \<Rightarrow> string \<times> nat \<times> effect list \<times> Error option" where
  "streamLoop cbs [] fullMessage progress = (fullMessage, progress, [], None)"
| "streamLoop cbs (chunkText # rest) fullMessage progress =
     (let fullMessage' = fullMessage @ chunkText;
          progress' = progress + length chunkText;
          (told, thrown) = invoke (handlerOf cbs cbTokenReceived) chunkText
                             (OnTokenReceived chunkText)
      in case thrown of
           Some e \<Rightarrow> (fullMessage', progress', told, Some e)
         | None \<Rightarrow>
             (let (told', thrown') = invoke (handlerOf cbs cbProgress) progress'
                                       (OnProgress progress')
              in case thrown' of
                   Some e \<Rightarrow> (fullMessage', progress', told @ told', Some e)
                 | None \<Rightarrow>
                     (let (full, prog, later, thrownLater) =
                            streamLoop cbs rest fullMessage' progress'
                      in (full, prog, told @ told' @ later, thrownLater))))"

text \<open>
  The \<open>catch\<close> block of \<open>handleStreamingResponse\<close>: it tells \<open>onError\<close> and rethrows
  the error caught, unless \<open>onError\<close> throws itself.
\<close>

definition catchBlock ::
  "SendMessageOptions \<Rightarrow> Error \<Rightarrow> ChatInterface \<Rightarrow> effect list
    \<Rightarrow> (Error \<times> ChatInterface \<times> effect list) + (ChatResponse \<times> ChatInterface \<times> effect list)" where
  "catchBlock options e ci effs =
     (let (told, thrown) = invoke (handlerOf (callbacks options) cbError) e (OnError e)
      in Inl ((case thrown of Some e' \<Rightarrow> e' | None \<Rightarrow> e), ci, effs @ told))"

text \<open>
  \<open>handleStreamingResponse\<close>: \<open>Inr\<close> the response, or \<open>Inl\<close> the error that the
  method throws, each with the client after it. The handlers run inside the \<open>try\<close>
  block, so an error that one of them throws is caught like an error of the transport.
  The assistant message is pushed onto the history before \<open>onComplete\<close> is called.
\<close>

definition handleStreamingResponse ::
  "SendMessageOptions \<Rightarrow> messageId \<Rightarrow> nat \<Rightarrow> attempt \<Rightarrow> ChatInterface
    \<Rightarrow> (Error \<times> ChatInterface \<times> effect list) + (ChatResponse \<times> ChatInterface \<times> effect list)" where
  "handleStreamingResponse options mid startTime a ci =
     (case a of
        Completes cs now rnd \<Rightarrow>
          (let (fullMessage, progress, effs, thrown) = streamLoop (callbacks options) cs [] 0;
               called = TransportCall (sm_content options) # effs
           in case thrown of
                Some e \<Rightarrow> catchBlock options e ci called
              | None \<Rightarrow>
                  (let ci' = pushHistory \<lparr>role = Assistant, content = fullMessage,
                               timestamp = now, messageId = generateMessageId now rnd\<rparr> ci;
                       (done, thrown') = invoke (handlerOf (callbacks options) cbComplete)
                                           fullMessage (OnComplete fullMessage now)
                   in case thrown' of
                        Some e \<Rightarrow> catchBlock options e ci' (called @ done)
                      | None \<Rightarrow>
                          Inr (\<lparr>success = True, message = Some fullMessage,
                                resp_messageId = Some mid, resp_error = None,
                                processTime = Some (int now - int startTime)\<rparr>,
                               ci', called @ done)))
      | Throws cs e \<Rightarrow>
          (let (fullMessage, progress, effs, thrown) = streamLoop (callbacks options) cs [] 0
           in catchBlock options (case thrown of Some e' \<Rightarrow> e' | None \<Rightarrow> e) ci
                (TransportCall (sm_content options) # effs)))"

text \<open>\<open>handleRegularResponse\<close> calls no handler and has no \<open>catch\<close> of its own.\<close>

definition handleRegularResponse ::
  "SendMessageOptions \<Rightarrow> messageId \<Rightarrow> nat \<Rightarrow> attempt \<Rightarrow> ChatInterface
    \<Rightarrow> (Error \<times> ChatInterface \<times> effect list) + (ChatResponse \<times> ChatInterface \<times> effect list)" where
  "handleRegularResponse options mid startTime a ci =
     (case a of
        Completes cs now rnd \<Rightarrow>
          (let responseText = concat cs;
               ci' = pushHistory \<lparr>role = Assistant, content = responseText,
                       timestamp = now, messageId = generateMessageId now rnd\<rparr> ci
           in Inr (\<lparr>success = True, message = Some responseText,
                     resp_messageId = Some mid, resp_error = None,
                     processTime = Some (int now - int startTime)\<rparr>,
                   ci',
                   [TransportCall (sm_content options)]))
      | Throws cs e \<Rightarrow> Inl (e, ci, [TransportCall (sm_content options)]))"

text \<open>
  \<open>handleError\<close> logs the error and classifies it by its message; the class is a local
  variable that nothing reads. The response carries the fallback message.
\<close>

definition handleError :: "ChatInterface \<Rightarrow> Error \<Rightarrow> messageId \<Rightarrow> ChatResponse" where
  "handleError ci e mid =
     \<lparr>success = False, message = None, resp_messageId = Some mid,
      resp_error = Some (fallbackMessage (errorHandling ci)), processTime = None\<rparr>"

text \<open>One round of the \<open>try\<close> block of \<open>sendMessage\<close>.\<close>

definition tryOnce ::
  "SendMessageOptions \<Rightarrow> messageId \<Rightarrow> nat \<Rightarrow> attempt \<Rightarrow> ChatInterface
    \<Rightarrow> (Error \<times> ChatInterface \<times> effect list) + (ChatResponse \<times> ChatInterface \<times> effect list)" where
  "tryOnce options mid startTime a ci =
     (if stream options \<and> callbacks options \<noteq> None
      then handleStreamingResponse options mid startTime a ci
      else handleRegularResponse options mid startTime a ci)"

text \<open>
  The retry loop of \<open>sendMessage\<close>. The counter \<open>retries\<close> of the source is \<open>n\<close>;
  it starts at 0 and is also the number of the attempt made in this round.
\<close>

function sendLoop ::
  "SendMessageOptions \<Rightarrow> messageId \<Rightarrow> nat \<Rightarrow> transport \<Rightarrow> int \<Rightarrow> ChatInterface
    \<Rightarrow> ChatResponse \<times> ChatInterface \<times> effect list" where
  "sendLoop options mid startTime tr n ci =
     (if n < retries (errorHandling ci) then
        (case tryOnce options mid startTime (tr (nat n)) ci of
           Inr (resp, ci', effs) \<Rightarrow> (resp, ci', effs)
         | Inl (e, ci', effs) \<Rightarrow>
             (if n + 1 \<ge> retries (errorHandling ci') then (handleError ci' e mid, ci', effs)
              else (case sendLoop options mid startTime tr (n + 1) ci' of
                      (resp, ci'', later) \<Rightarrow>
                        (resp, ci'', effs @ Delay (1000 * (n + 1)) # later))))
      else (\<lparr>success = False, message = None, resp_messageId = Some mid,
              resp_error = Some (fallbackMessage (errorHandling ci)), processTime = None\<rparr>,
            ci, []))"
  by pat_completeness auto
termination
  by (relation "measure (\<lambda>(options, mid, startTime, tr, n, ci).
        nat (retries (errorHandling ci) - n))")
    (auto simp: tryOnce_def handleStreamingResponse_def handleRegularResponse_def
      catchBlock_def pushHistory_def split_beta Let_def
      split: attempt.splits option.splits if_splits)

definition ChatInterface_sendMessage ::
  "SendMessageOptions \<Rightarrow> nat \<Rightarrow> string \<Rightarrow> transport \<Rightarrow> ChatInterface
    \<Rightarrow> ChatResponse \<times> ChatInterface \<times> effect list" where
  "ChatInterface_sendMessage options now rnd tr ci =
     (let startTime = now;
          mid = generateMessageId now rnd;
          ci1 = pushHistory \<lparr>role = sm_role options, content = sm_content options,
                  timestamp = now, messageId = mid\<rparr> ci
      in sendLoop options mid startTime tr 0 ci1)"

definition clearHistory :: "ChatInterface \<Rightarrow> ChatInterface" where
  "clearHistory ci = ci\<lparr>conversationHistory := []\<rparr>"

text \<open>\<open>xs.slice(-n)\<close> for an integer \<open>n\<close>: the last \<open>n\<close> elements, all of them when \<open>n = 0\<close>.\<close>

definition sliceLast :: "nat \<Rightarrow> 'a list \<Rightarrow> 'a list" where
  "sliceLast n xs = (if n = 0 then xs else drop (length xs - n) xs)"

definition ChatInterface_trimHistory :: "nat \<Rightarrow> ChatInterface \<Rightarrow> ChatInterface" where
  "ChatInterface_trimHistory maxMessages ci =
     (if length (conversationHistory ci) > maxMessages
      then ci\<lparr>conversationHistory := sliceLast maxMessages (conversationHistory ci)\<rparr>
      else ci)"


section \<open>The hook useGeminiChat\<close>

record ChatState =
  messages :: "ChatMessage list"
  isLoading :: bool
  error :: "string option"
  isStreaming :: bool
  currentStreamingMessage :: string

text \<open>
  The options that the control flow of the hook reads. An absent \<open>enableStreaming\<close> is
  \<open>False\<close> and an absent \<open>maxHistoryMessages\<close> is 0, as \<open>||\<close> reads them. The options
  are fixed for the life of the hook.
\<close>

record UseGeminiChatOptions =
  enableStreaming :: bool
  maxHistoryMessages :: nat

datatype AbortController = AbortController (aborted: bool)

text \<open>The reactive state and the three refs of the hook.\<close>

record hook =
  state :: ChatState
  chatRef :: "ChatInterface option"
  streamingMessageRef :: string
  abortControllerRef :: "AbortController option"

definition setState :: "(ChatState \<Rightarrow> ChatState) \<Rightarrow> hook \<Rightarrow> hook" where
  "setState f h = h\<lparr>state := f (state h)\<rparr>"

definition useGeminiChat :: hook where
  "useGeminiChat =
     \<lparr>state = \<lparr>messages = [], isLoading = False, error = None, isStreaming = False,
               currentStreamingMessage = []\<rparr>,
      chatRef = None, streamingMessageRef = [], abortControllerRef = None\<rparr>"

definition hookErrorHandling :: ErrorHandling where
  "hookErrorHandling =
     \<lparr>retries = 3,
      fallbackMessage = ''I apologize, but I'' @ [CHR 0x27] @
        ''m having trouble processing your request. Please try again or rephrase your question.''\<rparr>"

definition newChatInterface :: ChatInterface where
  "newChatInterface =
     \<lparr>messageHistory = True, errorHandling = hookErrorHandling, conversationHistory = []\<rparr>"

definition initializeChat :: "hook \<Rightarrow> hook" where
  "initializeChat h =
     (case chatRef h of None \<Rightarrow> h\<lparr>chatRef := Some newChatInterface\<rparr> | Some ci \<Rightarrow> h)"

text \<open>
  \<open>stopStreaming\<close> aborts the controller in the ref and drops it. The signal of the
  controller is handed to nobody, so the abort is seen by nothing else.
\<close>

definition stopStreaming :: "hook \<Rightarrow> hook" where
  "stopStreaming h =
     setState (\<lambda>prev. prev\<lparr>isStreaming := False, isLoading := False,
                           currentStreamingMessage := []\<rparr>)
       (case abortControllerRef h of
          Some c \<Rightarrow> h\<lparr>abortControllerRef := None\<rparr>
        | None \<Rightarrow> h)"

text \<open>\<open>String.prototype.trim\<close> on the code units below 256.\<close>

definition isWhiteSpace :: "char \<Rightarrow> bool" where
  "isWhiteSpace c \<longleftrightarrow>
     c \<in> set [CHR 0x09, CHR 0x0A, CHR 0x0B, CHR 0x0C, CHR 0x0D, CHR 0x20, CHR 0xA0]"

definition trim :: "string \<Rightarrow> string" where
  "trim s = rev (dropWhile isWhiteSpace (rev (dropWhile isWhiteSpace s)))"

text \<open>The part of \<open>sendMessage\<close> that runs before the \<open>await\<close>.\<close>

definition sendMessage_start :: "UseGeminiChatOptions \<Rightarrow> string \<Rightarrow> nat \<Rightarrow> hook \<Rightarrow> hook" where
  "sendMessage_start opts content' now h =
     (if trim content' = [] then h
      else
        (let h1 = initializeChat h;
             userMessage = \<lparr>role = User, content = content', timestamp = now,
                             messageId = UserId now\<rparr>;
             h2 = setState (\<lambda>prev. prev\<lparr>messages := messages prev @ [userMessage],
                                          isLoading := True, error := None,
                                          isStreaming := enableStreaming opts,
                                          currentStreamingMessage := []\<rparr>) h1
         in h2\<lparr>streamingMessageRef := [],
                abortControllerRef := Some (AbortController False)\<rparr>))"

text \<open>The three handlers that \<open>sendMessage\<close> passes to the client.\<close>

definition onTokenReceived :: "string \<Rightarrow> hook \<Rightarrow> hook" where
  "onTokenReceived token h =
     (let h1 = h\<lparr>streamingMessageRef := streamingMessageRef h @ token\<rparr>
      in setState (\<lambda>prev. prev\<lparr>currentStreamingMessage := streamingMessageRef h1\<rparr>) h1)"

definition onComplete :: "string \<Rightarrow> nat \<Rightarrow> hook \<Rightarrow> hook" where
  "onComplete fullMessage now h =
     (let assistantMessage = \<lparr>role = Assistant, content = fullMessage, timestamp = now,
                                messageId = AssistantId now\<rparr>;
          h1 = setState (\<lambda>prev. prev\<lparr>messages := messages prev @ [assistantMessage],
                                       isLoading := False, isStreaming := False,
                                       currentStreamingMessage := []\<rparr>) h
      in h1\<lparr>abortControllerRef := None\<rparr>)"

definition onError :: "Error \<Rightarrow> hook \<Rightarrow> hook" where
  "onError e h =
     (let h1 = (if errName e \<noteq> ''AbortError''
                then setState (\<lambda>prev. prev\<lparr>error := Some (errMessage e), isLoading := False,
                                             isStreaming := False,
                                             currentStreamingMessage := []\<rparr>) h
                else h)
      in h1\<lparr>abortControllerRef := None\<rparr>)"

text \<open>\<open>x || d\<close> for an optional string: the default when \<open>x\<close> is absent or empty.\<close>

definition orElse :: "string option \<Rightarrow> string \<Rightarrow> string" where
  "orElse x d = (case x of None \<Rightarrow> d | Some s \<Rightarrow> if s = [] then d else s)"

text \<open>The part of \<open>sendMessage\<close> after the \<open>await\<close>, when the promise resolves.\<close>

definition sendMessage_resolved ::
  "UseGeminiChatOptions \<Rightarrow> ChatResponse \<Rightarrow> nat \<Rightarrow> hook \<Rightarrow> hook" where
  "sendMessage_resolved opts response now h =
     (if \<not> enableStreaming opts \<and> success response then
        (let assistantMessage =
               \<lparr>role = Assistant, content = orElse (message response) [], timestamp = now,
                messageId = (case resp_messageId response of Some i \<Rightarrow> i
                             | None \<Rightarrow> AssistantId now)\<rparr>
         in setState (\<lambda>prev. prev\<lparr>messages := messages prev @ [assistantMessage],
                                    isLoading := False\<rparr>) h)
      else if \<not> success response then
        setState (\<lambda>prev. prev\<lparr>error := Some (orElse (resp_error response)
                                                ''Unknown error occurred''),
                              isLoading := False, isStreaming := False\<rparr>) h
      else h)"

text \<open>The \<open>catch\<close> of \<open>sendMessage\<close>, when the promise rejects.\<close>

definition sendMessage_rejected :: "Error \<Rightarrow> hook \<Rightarrow> hook" where
  "sendMessage_rejected e h =
     (if errName e \<noteq> ''AbortError''
      then setState (\<lambda>prev. prev\<lparr>error := Some (errMessage e), isLoading := False,
                                   isStreaming := False, currentStreamingMessage := []\<rparr>) h
      else h)"

definition clearConversation :: "hook \<Rightarrow> hook" where
  "clearConversation h =
     (let h1 = setState (\<lambda>prev. \<lparr>messages = [], isLoading = False, error = None,
                                  isStreaming = False, currentStreamingMessage = []\<rparr>) h
      in (case chatRef h1 of None \<Rightarrow> h1
          | Some ci \<Rightarrow> h1\<lparr>chatRef := Some (clearHistory ci)\<rparr>))"

text \<open>\<open>Array.prototype.findIndex\<close>: the first index that satisfies, or \<open>-1\<close>.\<close>

fun findIndex :: "('a \<Rightarrow> bool) \<Rightarrow> 'a list \<Rightarrow> int" where
  "findIndex P [] = -1"
| "findIndex P (x # xs) =
     (if P x then 0 else (let i = findIndex P xs in if i < 0 then -1 else i + 1))"

text \<open>
  The part of \<open>retryLastMessage\<close> before it calls \<open>sendMessage\<close>: \<open>None\<close> when
  there is no user message, else the hook after the truncation and the content to send.
\<close>

definition retry_truncate :: "hook \<Rightarrow> (hook \<times> string) option" where
  "retry_truncate h =
     (case find (\<lambda>msg. role msg = User) (rev (messages (state h))) of
        None \<Rightarrow> None
      | Some lastUserMessage \<Rightarrow>
          (let lastUserIndex = findIndex (\<lambda>msg. messageId msg = messageId lastUserMessage)
                                 (messages (state h))
           in Some (setState (\<lambda>prev. prev\<lparr>messages := take (nat (lastUserIndex + 1))
                                                           (messages prev),
                                            error := None\<rparr>) h,
                    content lastUserMessage)))"

definition trimHistory :: "UseGeminiChatOptions \<Rightarrow> hook \<Rightarrow> hook" where
  "trimHistory opts h =
     (let maxMessages = (if maxHistoryMessages opts = 0 then 100 else maxHistoryMessages opts)
      in if length (messages (state h)) > maxMessages then
           (let h1 = setState (\<lambda>prev. prev\<lparr>messages := sliceLast maxMessages (messages prev)\<rparr>) h
            in (case chatRef h1 of None \<Rightarrow> h1
                | Some ci \<Rightarrow> h1\<lparr>chatRef := Some (ChatInterface_trimHistory maxMessages ci)\<rparr>))
         else h)"

subsection \<open>Events of a session\<close>

text \<open>
  What can happen to the hook, one at a time on the single thread of the page: a call of
  one of its operations, the delivery of a callback of a call in flight, and the end of
  the awaited promise.
\<close>

datatype event =
    SendMessage string nat
  | TokenReceived string
  | Progress nat
  | Complete string nat
  | Failed Error
  | Resolved ChatResponse nat
  | Rejected Error
  | StopStreaming
  | ClearConversation
  | RetryLastMessage nat
  | TrimHistory

fun step :: "UseGeminiChatOptions \<Rightarrow> hook \<Rightarrow> event \<Rightarrow> hook" where
  "step opts h (SendMessage c now) = sendMessage_start opts c now h"
| "step opts h (TokenReceived token) = onTokenReceived token h"
| "step opts h (Progress p) = h"
| "step opts h (Complete fullMessage now) = onComplete fullMessage now h"
| "step opts h (Failed e) = onError e h"
| "step opts h (Resolved response now) = sendMessage_resolved opts response now h"
| "step opts h (Rejected e) = sendMessage_rejected e h"
| "step opts h StopStreaming = stopStreaming h"
| "step opts h ClearConversation = clearConversation h"
| "step opts h (RetryLastMessage now) =
     (case retry_truncate h of None \<Rightarrow> h
      | Some (h1, c) \<Rightarrow> sendMessage_start opts c now h1)"
| "step opts h TrimHistory = trimHistory opts h"

definition run :: "UseGeminiChatOptions \<Rightarrow> hook \<Rightarrow> event list \<Rightarrow> hook" where
  "run opts h evs = foldl (step opts) h evs"

subsection \<open>A whole turn\<close>

text \<open>The calls of the handlers among the effects of the client, as events of the hook.\<close>

fun delivered :: "effect list \<Rightarrow> event list" where
  "delivered [] = []"
| "delivered (OnTokenReceived t # es) = TokenReceived t # delivered es"
| "delivered (OnProgress p # es) = Progress p # delivered es"
| "delivered (OnComplete m now # es) = Complete m now # delivered es"
| "delivered (OnError e # es) = Failed e # delivered es"
| "delivered (TransportCall c # es) = delivered es"
| "delivered (Delay d # es) = delivered es"

text \<open>
  The four handlers of the hook are all present, and each of them returns: they only
  write refs and queue state updates.
\<close>

definition hookCallbacks :: StreamCallbacks where
  "hookCallbacks = \<lparr>cbTokenReceived = Some (\<lambda>token. None), cbProgress = Some (\<lambda>progress. None),
                    cbComplete = Some (\<lambda>fullMessage. None), cbError = Some (\<lambda>e. None)\<rparr>"

text \<open>The argument with which the hook calls \<open>ChatInterface.sendMessage\<close>.\<close>

definition hookRequest :: "UseGeminiChatOptions \<Rightarrow> string \<Rightarrow> SendMessageOptions" where
  "hookRequest opts content' =
     \<lparr>sm_role = User, sm_content = content', stream = enableStreaming opts,
      callbacks = (if enableStreaming opts then Some hookCallbacks else None)\<rparr>"

text \<open>
  \<open>sendMessage\<close> from the call to the end of its promise, with nothing else happening
  in between: the hook after it and what the client did to the outside. \<open>now\<close> is the
  clock at the call, \<open>rnd\<close> the random suffix of the id that the client generates, and
  \<open>later\<close> the clock when the promise resolves.
\<close>

definition sendMessage ::
  "UseGeminiChatOptions \<Rightarrow> transport \<Rightarrow> string \<Rightarrow> nat \<Rightarrow> string \<Rightarrow> nat \<Rightarrow> hook
    \<Rightarrow> hook \<times> effect list" where
  "sendMessage opts tr content' now rnd later h =
     (if trim content' = [] then (h, [])
      else
        (let h1 = sendMessage_start opts content' now h
         in (case chatRef h1 of
               None \<Rightarrow> (h1, [])
             | Some ci \<Rightarrow>
                 (let (response, ci', effs) =
                        ChatInterface_sendMessage (hookRequest opts content') now rnd tr ci;
                      h2 = run opts (h1\<lparr>chatRef := Some ci'\<rparr>) (delivered effs)
                  in (sendMessage_resolved opts response later h2, effs)))))"

definition retryLastMessage ::
  "UseGeminiChatOptions \<Rightarrow> transport \<Rightarrow> nat \<Rightarrow> string \<Rightarrow> nat \<Rightarrow> hook
    \<Rightarrow> hook \<times> effect list" where
  "retryLastMessage opts tr now rnd later h =
     (case retry_truncate h of
        None \<Rightarrow> (h, [])
      | Some (h1, c) \<Rightarrow> sendMessage opts tr c now rnd later h1)"

section \<open>Observations on what a call does\<close>

text \<open>The attempts and the waits of a call, in order.\<close>

datatype tick = Attempt | Wait int

fun schedule :: "effect list \<Rightarrow> tick list" where
  "schedule [] = []"
| "schedule (TransportCall c # es) = Attempt # schedule es"
| "schedule (Delay d # es) = Wait d # schedule es"
| "schedule (e # es) = schedule es"

fun transportCalls :: "effect list \<Rightarrow> string list" where
  "transportCalls [] = []"
| "transportCalls (TransportCall c # es) = c # transportCalls es"
| "transportCalls (x # es) = transportCalls es"

fun onErrors :: "effect list \<Rightarrow> Error list" where
  "onErrors [] = []"
| "onErrors (OnError e # es) = e # onErrors es"
| "onErrors (x # es) = onErrors es"

fun onCompletes :: "effect list \<Rightarrow> (string \<times> nat) list" where
  "onCompletes [] = []"
| "onCompletes (OnComplete m t # es) = (m, t) # onCompletes es"
| "onCompletes (x # es) = onCompletes es"

fun onTokens :: "effect list \<Rightarrow> string list" where
  "onTokens [] = []"
| "onTokens (OnTokenReceived c # es) = c # onTokens es"
| "onTokens (x # es) = onTokens es"

text \<open>The transport throws in each of the first \<open>r\<close> attempts.\<close>

definition alwaysFails :: "transport \<Rightarrow> int \<Rightarrow> bool" where
  "alwaysFails tr r = list_all (\<lambda>k. fails (tr k)) [0..<nat r]"

text \<open>
  Linear backoff with a budget of \<open>r\<close> attempts of which \<open>n\<close> are spent: an attempt,
  then for each further attempt \<open>k\<close> a wait of \<open>1000 * k\<close> milliseconds and the attempt.
\<close>

definition backoffFrom :: "int \<Rightarrow> int \<Rightarrow> tick list" where
  "backoffFrom n r =
     (if n < r
      then Attempt # concat (map (\<lambda>k. [Wait (1000 * int k), Attempt]) [nat n + 1..<nat r])
      else [])"

definition linearBackoff :: "int \<Rightarrow> tick list" where
  "linearBackoff r = backoffFrom 0 r"

text \<open>The message that a call appends to the history mirror before its first attempt.\<close>

definition sentMessage :: "SendMessageOptions \<Rightarrow> nat \<Rightarrow> string \<Rightarrow> ChatMessage" where
  "sentMessage options now rnd =
     \<lparr>role = sm_role options, content = sm_content options, timestamp = now,
      messageId = generateMessageId now rnd\<rparr>"

text \<open>The call streams and has an \<open>onError\<close> handler.\<close>

definition firesOnError :: "SendMessageOptions \<Rightarrow> bool" where
  "firesOnError options =
     (stream options \<and>
      (case handlerOf (callbacks options) cbError of None \<Rightarrow> False | Some f \<Rightarrow> True))"

text \<open>The call streams and has an \<open>onComplete\<close> handler.\<close>

definition firesOnComplete :: "SendMessageOptions \<Rightarrow> bool" where
  "firesOnComplete options =
     (stream options \<and>
      (case handlerOf (callbacks options) cbComplete of None \<Rightarrow> False | Some f \<Rightarrow> True))"

text \<open>No call of the handler throws.\<close>

definition returns :: "'a handler \<Rightarrow> bool" where
  "returns h = (case h of None \<Rightarrow> True | Some f \<Rightarrow> \<forall>x. f x = None)"

definition handlersReturn :: "SendMessageOptions \<Rightarrow> bool" where
  "handlersReturn options =
     (returns (handlerOf (callbacks options) cbTokenReceived)
      \<and> returns (handlerOf (callbacks options) cbProgress)
      \<and> returns (handlerOf (callbacks options) cbComplete)
      \<and> returns (handlerOf (callbacks options) cbError))"

text \<open>What one round of the \<open>try\<close> block does to the outside.\<close>

definition attemptEffects ::
  "SendMessageOptions \<Rightarrow> messageId \<Rightarrow> nat \<Rightarrow> attempt \<Rightarrow> ChatInterface \<Rightarrow> effect list" where
  "attemptEffects options mid startTime a ci =
     (case tryOnce options mid startTime a ci of
        Inl (e, ci', effs) \<Rightarrow> effs
      | Inr (resp, ci', effs) \<Rightarrow> effs)"

text \<open>The message that the \<open>onComplete\<close> handler of the hook commits.\<close>

definition assistantMessage :: "string \<times> nat \<Rightarrow> ChatMessage" where
  "assistantMessage p =
     \<lparr>role = Assistant, content = fst p, timestamp = snd p, messageId = AssistantId (snd p)\<rparr>"

text \<open>
  The client in \<open>chatRef\<close>, when there is one, has the error handling that
  \<open>initializeChat\<close> gives it. Nothing else ever writes the ref.
\<close>

definition configured :: "hook \<Rightarrow> bool" where
  "configured h =
     (case chatRef h of None \<Rightarrow> True | Some ci \<Rightarrow> errorHandling ci = hookErrorHandling)"


subsection \<open>Sample inputs\<close>

definition streamingOn :: UseGeminiChatOptions where
  "streamingOn = \<lparr>enableStreaming = True, maxHistoryMessages = 0\<rparr>"

definition streamingOff :: UseGeminiChatOptions where
  "streamingOff = \<lparr>enableStreaming = False, maxHistoryMessages = 0\<rparr>"

text \<open>A transport that throws in every attempt, after one chunk.\<close>

definition networkDown :: transport where
  "networkDown = (\<lambda>k. Throws [''Hel''] (Error ''Error'' ''fetch failed''))"

text \<open>A transport that throws in its first attempt after one chunk and then answers.\<close>

definition flaky :: transport where
  "flaky = (\<lambda>k. if k = 0 then Throws [''Hel''] (Error ''Error'' ''fetch failed'')
                 else Completes [''Hello'', '' there''] 20 ''s'')"

definition answers :: transport where
  "answers = (\<lambda>k. Completes [''Hello'', '' there''] 20 ''s'')"

text \<open>Handlers of which \<open>onComplete\<close> throws.\<close>

definition clumsyCallbacks :: StreamCallbacks where
  "clumsyCallbacks =
     \<lparr>cbTokenReceived = Some (\<lambda>token. None), cbProgress = Some (\<lambda>progress. None),
      cbComplete = Some (\<lambda>fullMessage. Some (Error ''TypeError'' ''render failed'')),
      cbError = Some (\<lambda>e. None)\<rparr>"

definition clumsyRequest :: SendMessageOptions where
  "clumsyRequest = \<lparr>sm_role = User, sm_content = ''hi'', stream = True,
                     callbacks = Some clumsyCallbacks\<rparr>"

section \<open>Properties of the client\<close>

lemma pushHistory_errorHandling [simp]: "errorHandling (pushHistory m ci) = errorHandling ci"
  by (simp add: pushHistory_def)

lemma pushHistory_messageHistory [simp]: "messageHistory (pushHistory m ci) = messageHistory ci"
  by (simp add: pushHistory_def)

lemma pushHistory_history:
  "conversationHistory (pushHistory m ci) =
     (if messageHistory ci then conversationHistory ci @ [m] else conversationHistory ci)"
  by (simp add: pushHistory_def)

lemma schedule_append: "schedule (xs @ ys) = schedule xs @ schedule ys"
  by (induction xs rule: schedule.induct) simp_all

lemma transportCalls_append:
  "transportCalls (xs @ ys) = transportCalls xs @ transportCalls ys"
  by (induction xs rule: transportCalls.induct) simp_all

lemma onErrors_append: "onErrors (xs @ ys) = onErrors xs @ onErrors ys"
  by (induction xs rule: onErrors.induct) simp_all

lemma onCompletes_append: "onCompletes (xs @ ys) = onCompletes xs @ onCompletes ys"
  by (induction xs rule: onCompletes.induct) simp_all

lemma onTokens_append: "onTokens (xs @ ys) = onTokens xs @ onTokens ys"
  by (induction xs rule: onTokens.induct) simp_all

lemma onCompletes_butlast: "onCompletes xs = [] \<Longrightarrow> onCompletes (butlast xs) = []"
  by (induction xs rule: onCompletes.induct) (simp_all split: if_splits)

lemma streamLoop_schedule: "schedule (fst (snd (snd (streamLoop cbs cs fm p)))) = []"
  by (induction cs arbitrary: fm p)
    (simp_all add: split_beta Let_def schedule_append invoke_def split: option.splits)

lemma streamLoop_transportCalls:
  "transportCalls (fst (snd (snd (streamLoop cbs cs fm p)))) = []"
  by (induction cs arbitrary: fm p)
    (simp_all add: split_beta Let_def transportCalls_append invoke_def split: option.splits)

lemma streamLoop_onErrors: "onErrors (fst (snd (snd (streamLoop cbs cs fm p)))) = []"
  by (induction cs arbitrary: fm p)
    (simp_all add: split_beta Let_def onErrors_append invoke_def split: option.splits)

lemma streamLoop_onCompletes: "onCompletes (fst (snd (snd (streamLoop cbs cs fm p)))) = []"
  by (induction cs arbitrary: fm p)
    (simp_all add: split_beta Let_def onCompletes_append invoke_def split: option.splits)

lemma streamLoop_returns:
  assumes "returns (handlerOf cbs cbTokenReceived)" and "returns (handlerOf cbs cbProgress)"
  shows "snd (snd (snd (streamLoop cbs cs fm p))) = None
       \<and> fst (streamLoop cbs cs fm p) = fm @ concat cs
       \<and> onTokens (fst (snd (snd (streamLoop cbs cs fm p))))
           = (case handlerOf cbs cbTokenReceived of None \<Rightarrow> [] | Some f \<Rightarrow> cs)"
  using assms
  by (induction cs arbitrary: fm p)
    (auto simp: split_beta Let_def onTokens_append invoke_def returns_def split: option.splits)

lemma invoke_error_count:
  "stream options \<Longrightarrow> callbacks options \<noteq> None \<Longrightarrow>
   length (onErrors (fst (invoke (handlerOf (callbacks options) cbError) e (OnError e))))
     = (if firesOnError options then 1 else 0)"
  by (auto simp: invoke_def firesOnError_def split: option.splits)

lemma invoke_error_facts:
  "schedule (fst (invoke (handlerOf cbs cbError) e (OnError e))) = []"
  "transportCalls (fst (invoke (handlerOf cbs cbError) e (OnError e))) = []"
  "onCompletes (fst (invoke (handlerOf cbs cbError) e (OnError e))) = []"
  by (auto simp: invoke_def split: option.splits)

lemma invoke_complete_facts:
  "schedule (fst (invoke (handlerOf cbs cbComplete) m (OnComplete m t))) = []"
  "transportCalls (fst (invoke (handlerOf cbs cbComplete) m (OnComplete m t))) = []"
  "onErrors (fst (invoke (handlerOf cbs cbComplete) m (OnComplete m t))) = []"
  "length (onCompletes (fst (invoke (handlerOf cbs cbComplete) m (OnComplete m t)))) \<le> 1"
  by (auto simp: invoke_def split: option.splits)

lemma not_streaming_fires: "\<not> (stream options \<and> callbacks options \<noteq> None) \<Longrightarrow> \<not> firesOnError options"
  by (auto simp: firesOnError_def handlerOf_def)

lemma tryOnce_fails:
  assumes "fails a"
  shows "\<exists>e effs. tryOnce options mid st a ci = Inl (e, ci, effs)
     \<and> schedule effs = [Attempt] \<and> transportCalls effs = [sm_content options]
     \<and> onCompletes effs = []
     \<and> length (onErrors effs) = (if firesOnError options then 1 else 0)"
proof -
  obtain cs e where a: "a = Throws cs e" using assms by (cases a) simp_all
  show ?thesis
  proof (cases "stream options \<and> callbacks options \<noteq> None")
    case True
    then show ?thesis
      using a invoke_error_count [of options]
      by (simp add: tryOnce_def handleStreamingResponse_def catchBlock_def split_beta
          schedule_append transportCalls_append onCompletes_append onErrors_append
          streamLoop_schedule streamLoop_transportCalls streamLoop_onCompletes
          streamLoop_onErrors invoke_error_facts)
  next
    case False
    then show ?thesis
      using a not_streaming_fires [OF False]
      by (auto simp: tryOnce_def handleRegularResponse_def)
  qed
qed


lemma tryOnce_general:
  "(case tryOnce options mid st a ci of
      Inl (e, ci', effs) \<Rightarrow>
        schedule effs = [Attempt] \<and> transportCalls effs = [sm_content options]
        \<and> errorHandling ci' = errorHandling ci
        \<and> length (onErrors effs) = (if firesOnError options then 1 else 0)
        \<and> length (onCompletes effs) \<le> 1
    | Inr (resp, ci', effs) \<Rightarrow>
        schedule effs = [Attempt] \<and> transportCalls effs = [sm_content options]
        \<and> errorHandling ci' = errorHandling ci
        \<and> success resp \<and> onErrors effs = []
        \<and> length (onCompletes effs) \<le> 1 \<and> onCompletes (butlast effs) = [])"
proof (cases "stream options \<and> callbacks options \<noteq> None")
  case False
  then show ?thesis
    using not_streaming_fires [OF False]
    by (cases a) (auto simp: tryOnce_def handleRegularResponse_def Let_def)
next
  case True
  note cnt = invoke_error_count [of options]
  show ?thesis
  proof (cases a)
    case (Throws cs e)
    then show ?thesis
      using True cnt
      by (simp add: tryOnce_def handleStreamingResponse_def catchBlock_def split_beta
          schedule_append transportCalls_append onCompletes_append onErrors_append
          streamLoop_schedule streamLoop_transportCalls streamLoop_onCompletes
          streamLoop_onErrors invoke_error_facts)
  next
    case (Completes cs t r)
    obtain full prog effs thrown where
      sl: "streamLoop (callbacks options) cs [] 0 = (full, prog, effs, thrown)"
      by (cases "streamLoop (callbacks options) cs [] 0") auto
    have e: "schedule effs = []" "transportCalls effs = []" "onErrors effs = []"
      "onCompletes effs = []"
      using streamLoop_schedule [of "callbacks options" cs "[]" 0]
        streamLoop_transportCalls [of "callbacks options" cs "[]" 0]
        streamLoop_onErrors [of "callbacks options" cs "[]" 0]
        streamLoop_onCompletes [of "callbacks options" cs "[]" 0]
      by (simp_all add: sl)
    obtain fin thrown' where
      inv: "invoke (handlerOf (callbacks options) cbComplete) full (OnComplete full t)
              = (fin, thrown')"
      by (cases "invoke (handlerOf (callbacks options) cbComplete) full (OnComplete full t)")
        auto
    have d: "schedule fin = []" "transportCalls fin = []" "onErrors fin = []"
      "length (onCompletes fin) \<le> 1" "length fin \<le> 1"
      using inv by (auto simp: invoke_def split: option.splits)
    have bl: "onCompletes (butlast (TransportCall (sm_content options) # effs @ fin)) = []"
      using d(5) e(4) by (cases fin) (simp_all add: butlast_append onCompletes_append
          onCompletes_butlast)
    show ?thesis
    proof (cases thrown)
      case (Some x)
      then show ?thesis
        using True Completes sl e cnt
        by (simp add: tryOnce_def handleStreamingResponse_def catchBlock_def split_beta
            schedule_append transportCalls_append onCompletes_append onErrors_append
            invoke_error_facts)
    next
      case None
      show ?thesis
      proof (cases thrown')
        case (Some x)
        then show ?thesis
          using True Completes sl inv None e d cnt
          by (simp add: tryOnce_def handleStreamingResponse_def catchBlock_def split_beta
              Let_def schedule_append transportCalls_append onCompletes_append
              onErrors_append invoke_error_facts)
      next
        case n2: None
        then show ?thesis
          using True Completes sl inv None e d bl
          by (simp add: tryOnce_def handleStreamingResponse_def Let_def
              schedule_append transportCalls_append onCompletes_append onErrors_append)
      qed
    qed
  qed
qed

lemma tryOnce_returns:
  assumes "handlersReturn options"
  shows "\<exists>resp effs. tryOnce options mid st (Completes cs t r) ci
       = Inr (resp, pushHistory \<lparr>role = Assistant, content = concat cs, timestamp = t,
                                 messageId = generateMessageId t r\<rparr> ci, effs)
     \<and> success resp \<and> message resp = Some (concat cs)
     \<and> onCompletes (butlast effs) = []
     \<and> onCompletes effs = (if firesOnComplete options then [(concat cs, t)] else [])
     \<and> onTokens effs = (if stream options
                          then (case handlerOf (callbacks options) cbTokenReceived of
                                  None \<Rightarrow> [] | Some f \<Rightarrow> cs)
                          else [])"
proof (cases "stream options \<and> callbacks options \<noteq> None")
  case False
  then show ?thesis
    by (auto simp: tryOnce_def handleRegularResponse_def firesOnComplete_def handlerOf_def
        Let_def)
next
  case True
  have r: "returns (handlerOf (callbacks options) cbTokenReceived)"
    "returns (handlerOf (callbacks options) cbProgress)"
    using assms by (simp_all add: handlersReturn_def)
  note s = streamLoop_returns [OF r, of cs "[]" 0]
  have c: "returns (handlerOf (callbacks options) cbComplete)"
    using assms by (simp add: handlersReturn_def)
  show ?thesis
    using True s c
    by (auto simp: tryOnce_def handleStreamingResponse_def split_beta Let_def
        invoke_def returns_def firesOnComplete_def onCompletes_append onTokens_append
        streamLoop_onCompletes butlast_append onCompletes_butlast
        split: option.splits)
qed

text \<open>Every round leaves the configuration of the client as it was.\<close>

lemma tryOnce_Inl:
  assumes "tryOnce options mid st a ci = Inl (e, ci', effs)"
  shows "schedule effs = [Attempt]" "transportCalls effs = [sm_content options]"
    "errorHandling ci' = errorHandling ci"
    "length (onErrors effs) = (if firesOnError options then 1 else 0)"
    "length (onCompletes effs) \<le> 1"
  using tryOnce_general [where options = options and mid = mid and st = st and a = a and ci = ci]
    assms by simp_all

lemma tryOnce_Inr:
  assumes "tryOnce options mid st a ci = Inr (resp, ci', effs)"
  shows "schedule effs = [Attempt]" "transportCalls effs = [sm_content options]"
    "errorHandling ci' = errorHandling ci" "success resp" "onErrors effs = []"
    "length (onCompletes effs) \<le> 1" "onCompletes (butlast effs) = []"
  using tryOnce_general [where options = options and mid = mid and st = st and a = a and ci = ci]
    assms by simp_all

lemma backoffFrom_step:
  assumes "0 \<le> n" "n + 1 < r"
  shows "backoffFrom n r = Attempt # Wait (1000 * (n + 1)) # backoffFrom (n + 1) r"
proof -
  have lt: "Suc (nat n) < nat r" using assms by linarith
  have eq: "nat (n + 1) = Suc (nat n)" using assms by linarith
  have i: "int (Suc (nat n)) = n + 1" using assms by simp
  have u: "[Suc (nat n)..<nat r] = Suc (nat n) # [Suc (Suc (nat n))..<nat r]"
    using lt by (rule upt_conv_Cons)
  have "backoffFrom n r =
          Attempt # concat (map (\<lambda>k. [Wait (1000 * int k), Attempt]) [Suc (nat n)..<nat r])"
    using assms by (simp add: backoffFrom_def)
  also have "\<dots> = Attempt # Wait (1000 * (n + 1)) # Attempt #
          concat (map (\<lambda>k. [Wait (1000 * int k), Attempt]) [Suc (Suc (nat n))..<nat r])"
    by (subst u) (simp only: list.map concat.simps append.simps i)
  also have "\<dots> = Attempt # Wait (1000 * (n + 1)) # backoffFrom (n + 1) r"
    using assms by (simp add: backoffFrom_def eq)
  finally show ?thesis .
qed

lemma backoffFrom_last:
  assumes "n < r" "r \<le> n + 1"
  shows "backoffFrom n r = [Attempt]"
  using assms by (simp add: backoffFrom_def)

text \<open>
  A loop that meets a throwing transport in every round up to the budget leaves the
  client as it was, answers with the fallback message and follows the backoff schedule.
\<close>

lemma sendLoop_fails:
  assumes "0 \<le> n"
    and "\<forall>k. nat n \<le> k \<and> int k < retries (errorHandling ci) \<longrightarrow> fails (tr k)"
  shows "fst (snd (sendLoop options mid st tr n ci)) = ci
       \<and> \<not> success (fst (sendLoop options mid st tr n ci))
       \<and> resp_error (fst (sendLoop options mid st tr n ci))
           = Some (fallbackMessage (errorHandling ci))
       \<and> schedule (snd (snd (sendLoop options mid st tr n ci)))
           = backoffFrom n (retries (errorHandling ci))"
  using assms
proof (induction options mid st tr n ci rule: sendLoop.induct)
  case (1 options mid st tr n ci)
  let ?r = "retries (errorHandling ci)"
  show ?case
  proof (cases "n < ?r")
    case False
    then show ?thesis by (simp add: backoffFrom_def)
  next
    case True
    have "fails (tr (nat n))" using "1.prems" True by simp
    then obtain e effs where t: "tryOnce options mid st (tr (nat n)) ci = Inl (e, ci, effs)"
      and s: "schedule effs = [Attempt]"
      using tryOnce_fails by blast
    show ?thesis
    proof (cases "?r \<le> n + 1")
      case last: True
      show ?thesis
        using True last t s by (simp add: handleError_def backoffFrom_last)
    next
      case more: False
      have p: "\<forall>k. nat (n + 1) \<le> k \<and> int k < ?r \<longrightarrow> fails (tr k)"
        using "1.prems" by auto
      have ih: "fst (snd (sendLoop options mid st tr (n + 1) ci)) = ci
       \<and> \<not> success (fst (sendLoop options mid st tr (n + 1) ci))
       \<and> resp_error (fst (sendLoop options mid st tr (n + 1) ci))
           = Some (fallbackMessage (errorHandling ci))
       \<and> schedule (snd (snd (sendLoop options mid st tr (n + 1) ci)))
           = backoffFrom (n + 1) ?r"
        using "1.IH" [OF True t refl refl more] p "1.prems"(1) by simp
      have b: "backoffFrom n ?r = Attempt # Wait (1000 * (n + 1)) # backoffFrom (n + 1) ?r"
        using backoffFrom_step "1.prems"(1) more by simp
      show ?thesis
        using True more t s ih b
        by (simp add: split_beta schedule_append)
    qed
  qed
qed

lemma alwaysFails_iff: "alwaysFails tr r \<longleftrightarrow> (\<forall>k. int k < r \<longrightarrow> fails (tr k))"
  by (auto simp: alwaysFails_def list_all_iff)

lemma sendMessage_fails:
  assumes "alwaysFails tr (retries (errorHandling ci))"
  shows "fst (snd (ChatInterface_sendMessage options now rnd tr ci))
           = pushHistory (sentMessage options now rnd) ci"
    and "\<not> success (fst (ChatInterface_sendMessage options now rnd tr ci))"
    and "resp_error (fst (ChatInterface_sendMessage options now rnd tr ci))
           = Some (fallbackMessage (errorHandling ci))"
    and "schedule (snd (snd (ChatInterface_sendMessage options now rnd tr ci)))
           = linearBackoff (retries (errorHandling ci))"
proof -
  let ?ci = "pushHistory (sentMessage options now rnd) ci"
  have "\<forall>k. nat 0 \<le> k \<and> int k < retries (errorHandling ?ci) \<longrightarrow> fails (tr k)"
    using assms by (simp add: alwaysFails_iff)
  then have l: "fst (snd (sendLoop options (generateMessageId now rnd) now tr 0 ?ci)) = ?ci
       \<and> \<not> success (fst (sendLoop options (generateMessageId now rnd) now tr 0 ?ci))
       \<and> resp_error (fst (sendLoop options (generateMessageId now rnd) now tr 0 ?ci))
           = Some (fallbackMessage (errorHandling ?ci))
       \<and> schedule (snd (snd (sendLoop options (generateMessageId now rnd) now tr 0 ?ci)))
           = backoffFrom 0 (retries (errorHandling ?ci))"
    by (intro sendLoop_fails) simp_all
  have u: "ChatInterface_sendMessage options now rnd tr ci
             = sendLoop options (generateMessageId now rnd) now tr 0 ?ci"
    by (simp add: ChatInterface_sendMessage_def sentMessage_def Let_def)
  show "fst (snd (ChatInterface_sendMessage options now rnd tr ci)) = ?ci"
    using l u by simp
  show "\<not> success (fst (ChatInterface_sendMessage options now rnd tr ci))"
    using l u by simp
  show "resp_error (fst (ChatInterface_sendMessage options now rnd tr ci))
          = Some (fallbackMessage (errorHandling ci))"
    using l u by simp
  show "schedule (snd (snd (ChatInterface_sendMessage options now rnd tr ci)))
          = linearBackoff (retries (errorHandling ci))"
    using l u by (simp add: linearBackoff_def)
qed




subsection \<open>A budget of no attempts\<close>

text \<open>
  C10. If \<open>errorHandling.retries\<close> is 0 or less, \<open>ChatInterface.sendMessage\<close> does
  nothing to the outside (it never calls the transport, whatever the input is), and it
  resolves with \<open>success = false\<close> and the configured fallback message as its error;
  the user message is appended to the history mirror all the same when \<open>messageHistory\<close>
  is enabled.
\<close>

theorem no_budget_no_transport:
  assumes "retries (errorHandling ci) \<le> 0"
  shows "snd (snd (ChatInterface_sendMessage options now rnd tr ci)) = []
       \<and> success (fst (ChatInterface_sendMessage options now rnd tr ci)) = False
       \<and> resp_error (fst (ChatInterface_sendMessage options now rnd tr ci))
           = Some (fallbackMessage (errorHandling ci))
       \<and> conversationHistory (fst (snd (ChatInterface_sendMessage options now rnd tr ci)))
           = (if messageHistory ci
              then conversationHistory ci @ [sentMessage options now rnd]
              else conversationHistory ci)"
  using assms
  by (simp add: ChatInterface_sendMessage_def Let_def sentMessage_def pushHistory_history)

theorem no_budget_no_transport_witness:
  "retries (errorHandling (newChatInterface\<lparr>errorHandling :=
       \<lparr>retries = 0, fallbackMessage = ''Sorry''\<rparr>\<rparr>)) \<le> 0
   \<and> snd (snd (ChatInterface_sendMessage (hookRequest streamingOn ''hi'') 5 ''r'' answers
        (newChatInterface\<lparr>errorHandling := \<lparr>retries = 0, fallbackMessage = ''Sorry''\<rparr>\<rparr>))) = []
   \<and> resp_error (fst (ChatInterface_sendMessage (hookRequest streamingOn ''hi'') 5 ''r'' answers
        (newChatInterface\<lparr>errorHandling := \<lparr>retries = 0, fallbackMessage = ''Sorry''\<rparr>\<rparr>)))
       = Some ''Sorry''
   \<and> conversationHistory (fst (snd (ChatInterface_sendMessage (hookRequest streamingOn ''hi'')
        5 ''r'' answers
        (newChatInterface\<lparr>errorHandling := \<lparr>retries = 0, fallbackMessage = ''Sorry''\<rparr>\<rparr>))))
       = [\<lparr>role = User, content = ''hi'', timestamp = 5, messageId = MsgId 5 ''r''\<rparr>]"
  using no_budget_no_transport [of "newChatInterface\<lparr>errorHandling :=
       \<lparr>retries = 0, fallbackMessage = ''Sorry''\<rparr>\<rparr>" "hookRequest streamingOn ''hi''" 5 "''r''"
       answers]
  by (simp add: newChatInterface_def sentMessage_def hookRequest_def streamingOn_def
      generateMessageId_def)

subsection \<open>The history mirror after a failed call\<close>

text \<open>
  C5, as the code has it. For every call whose transport fails on all attempts, the
  history mirror after the call is the mirror before the call with the user message
  appended when \<open>messageHistory\<close> is enabled, and the mirror before the call when it is
  not: no assistant content, partial or whole, is added.
\<close>

theorem failed_call_history:
  assumes "alwaysFails tr (retries (errorHandling ci))"
  shows "conversationHistory (fst (snd (ChatInterface_sendMessage options now rnd tr ci)))
           = (if messageHistory ci
              then conversationHistory ci @ [sentMessage options now rnd]
              else conversationHistory ci)"
  using sendMessage_fails(1) [OF assms] by (simp add: pushHistory_history)

theorem failed_call_history_witness:
  "alwaysFails networkDown (retries (errorHandling newChatInterface))
   \<and> conversationHistory (fst (snd (ChatInterface_sendMessage (hookRequest streamingOn ''hi'')
        5 ''r'' networkDown newChatInterface)))
       = [\<lparr>role = User, content = ''hi'', timestamp = 5, messageId = MsgId 5 ''r''\<rparr>]"
proof -
  have h: "alwaysFails networkDown (retries (errorHandling newChatInterface))"
    by (simp add: alwaysFails_def networkDown_def list_all_iff)
  show ?thesis
    using h failed_call_history [OF h, of "hookRequest streamingOn ''hi''" 5 "''r''"]
    by (simp add: newChatInterface_def sentMessage_def hookRequest_def streamingOn_def
        generateMessageId_def)
qed

text \<open>
  The claim as the specification states it fails: the client of the hook, with an empty
  mirror and a transport that throws in all three attempts, ends with the user message
  in its mirror.
\<close>

theorem failed_call_history_counterexample:
  "alwaysFails networkDown (retries (errorHandling newChatInterface))
   \<and> conversationHistory (fst (snd (ChatInterface_sendMessage (hookRequest streamingOn ''hi'')
        5 ''r'' networkDown newChatInterface)))
       \<noteq> conversationHistory newChatInterface"
proof -
  have h: "alwaysFails networkDown (retries (errorHandling newChatInterface))"
    by (simp add: alwaysFails_def networkDown_def list_all_iff)
  show ?thesis
    using h sendMessage_fails(1) [OF h, of "hookRequest streamingOn ''hi''" 5 "''r''"]
    by (simp add: newChatInterface_def pushHistory_def)
qed

subsection \<open>Number of attempts and backoff\<close>




section \<open>Callbacks of a call\<close>

lemma sendLoop_errorHandling:
  "errorHandling (fst (snd (sendLoop options mid st tr n ci))) = errorHandling ci"
proof (induction options mid st tr n ci rule: sendLoop.induct)
  case (1 options mid st tr n ci)
  show ?case
  proof (cases "n < retries (errorHandling ci)")
    case False
    then show ?thesis by simp
  next
    case lt: True
    show ?thesis
    proof (cases "tryOnce options mid st (tr (nat n)) ci")
      case (Inr z)
      obtain resp ci' effs where z: "z = (resp, ci', effs)" by (cases z) auto
      show ?thesis using lt Inr z tryOnce_Inr(3) [of options mid st "tr (nat n)" ci resp ci' effs]
        by simp
    next
      case (Inl z)
      obtain e ci' effs where z: "z = (e, ci', effs)" by (cases z) auto
      have t: "tryOnce options mid st (tr (nat n)) ci = Inl (e, ci', effs)" using Inl z by simp
      have c: "errorHandling ci' = errorHandling ci" using tryOnce_Inl(3) [OF t] .
      show ?thesis
      proof (cases "retries (errorHandling ci') \<le> n + 1")
        case True
        then show ?thesis using lt t c by simp
      next
        case more: False
        show ?thesis
          using lt more t c "1.IH" [OF lt t refl refl more] by (simp add: split_beta)
      qed
    qed
  qed
qed









text \<open>
  A handler that throws is treated like a transport that throws: when \<open>onComplete\<close>
  throws, \<open>onError\<close> fires in the same attempt and the attempt is made again, the
  assistant message of each attempt staying in the history mirror.
\<close>

lemma throwing_onComplete_is_retried:
  "snd (snd (ChatInterface_sendMessage clumsyRequest 5 ''r'' answers newChatInterface))
     = [TransportCall ''hi'', OnTokenReceived ''Hello'', OnProgress 5,
        OnTokenReceived '' there'', OnProgress 11, OnComplete ''Hello there'' 20,
        OnError (Error ''TypeError'' ''render failed''), Delay 1000,
        TransportCall ''hi'', OnTokenReceived ''Hello'', OnProgress 5,
        OnTokenReceived '' there'', OnProgress 11, OnComplete ''Hello there'' 20,
        OnError (Error ''TypeError'' ''render failed''), Delay 2000,
        TransportCall ''hi'', OnTokenReceived ''Hello'', OnProgress 5,
        OnTokenReceived '' there'', OnProgress 11, OnComplete ''Hello there'' 20,
        OnError (Error ''TypeError'' ''render failed'')]
   \<and> success (fst (ChatInterface_sendMessage clumsyRequest 5 ''r'' answers newChatInterface))
       = False
   \<and> map role (conversationHistory (fst (snd (ChatInterface_sendMessage clumsyRequest 5 ''r''
        answers newChatInterface)))) = [User, Assistant, Assistant, Assistant]"
  by code_simp

section \<open>Properties of the hook\<close>

lemma run_Nil [simp]: "run opts h [] = h"
  by (simp add: run_def)

lemma run_Cons [simp]: "run opts h (e # evs) = run opts (step opts h e) evs"
  by (simp add: run_def)

subsection \<open>The client of the hook keeps its configuration\<close>

lemma configured_init: "configured useGeminiChat"
  by (simp add: configured_def useGeminiChat_def)

lemma configured_step: "configured h \<Longrightarrow> configured (step opts h e)"
  by (cases e)
    (auto simp: configured_def sendMessage_start_def initializeChat_def setState_def Let_def
      onTokenReceived_def onComplete_def onError_def sendMessage_resolved_def
      sendMessage_rejected_def stopStreaming_def clearConversation_def clearHistory_def
      retry_truncate_def trimHistory_def ChatInterface_trimHistory_def newChatInterface_def
      split: option.splits)

lemma configured_run: "configured h \<Longrightarrow> configured (run opts h evs)"
  by (induction evs arbitrary: h) (simp_all add: configured_step)

lemma start_chatRef:
  assumes "configured h" and "trim c \<noteq> []"
  shows "\<exists>ci. chatRef (sendMessage_start opts c now h) = Some ci
            \<and> errorHandling ci = hookErrorHandling"
  using assms
  by (auto simp: configured_def sendMessage_start_def initializeChat_def setState_def Let_def
      newChatInterface_def split: option.splits)

lemma start_messages:
  assumes "trim c \<noteq> []"
  shows "messages (state (sendMessage_start opts c now h))
    = messages (state h)
      @ [\<lparr>role = User, content = c, timestamp = now, messageId = UserId now\<rparr>]"
  using assms
  by (simp add: sendMessage_start_def initializeChat_def setState_def Let_def
      split: option.splits)

lemma resolved_chatRef [simp]:
  "chatRef (sendMessage_resolved opts response later h) = chatRef h"
  by (simp add: sendMessage_resolved_def setState_def Let_def)

lemma configured_chatRef: "chatRef h = chatRef h' \<Longrightarrow> configured h = configured h'"
  by (simp add: configured_def)

lemma configured_sendMessage:
  assumes "configured h"
  shows "configured (fst (sendMessage opts tr c now rnd later h))"
proof (cases "trim c = []")
  case True
  then show ?thesis using assms by (simp add: sendMessage_def)
next
  case False
  obtain ci where c: "chatRef (sendMessage_start opts c now h) = Some ci"
    and e: "errorHandling ci = hookErrorHandling"
    using start_chatRef [OF assms False] by blast
  let ?call = "ChatInterface_sendMessage (hookRequest opts c) now rnd tr ci"
  have "errorHandling (fst (snd ?call)) = hookErrorHandling"
    using e by (simp add: ChatInterface_sendMessage_def Let_def sendLoop_errorHandling del: sendLoop.simps)
  then have "configured ((sendMessage_start opts c now h)\<lparr>chatRef := Some (fst (snd ?call))\<rparr>)"
    by (simp add: configured_def)
  then have "configured (run opts ((sendMessage_start opts c now h)\<lparr>chatRef := Some (fst (snd ?call))\<rparr>)
      (delivered (snd (snd ?call))))"
    by (rule configured_run)
  then show ?thesis
    using False c
    by (simp add: sendMessage_def Let_def split_beta
        configured_chatRef [of "sendMessage_resolved opts (fst ?call) later _"])
qed

subsection \<open>Blank input\<close>

text \<open>
  C9. For every input text whose trimmed form is empty, \<open>sendMessage(text)\<close> is a
  no-op: the whole hook (the message sequence, \<open>isLoading\<close>, \<open>isStreaming\<close>, the
  streaming buffer, the error and the refs) is unchanged, so no error is surfaced, and
  nothing is done to the outside, so no model call is made.
\<close>

theorem blank_message_noop:
  assumes "trim content' = []"
  shows "sendMessage opts tr content' now rnd later h = (h, [])
       \<and> step opts h (SendMessage content' now) = h"
  using assms by (simp add: sendMessage_def sendMessage_start_def)

theorem blank_message_noop_witness:
  "trim [CHR 0x20, CHR 0x09, CHR 0x0A] = []
   \<and> sendMessage streamingOn answers [CHR 0x20, CHR 0x09, CHR 0x0A] 5 ''r'' 9 useGeminiChat
       = (useGeminiChat, [])"
proof -
  have h: "trim [CHR 0x20, CHR 0x09, CHR 0x0A] = []"
    by (simp add: trim_def isWhiteSpace_def)
  show ?thesis
    using h blank_message_noop [OF h, of streamingOn answers 5 "''r''" 9 useGeminiChat]
    by simp
qed

subsection \<open>The error after the retries are exhausted\<close>

lemma fallback_nonempty: "fallbackMessage hookErrorHandling \<noteq> []"
  by (simp add: hookErrorHandling_def)

lemma resolved_failure:
  assumes "\<not> success response" and "resp_error response = Some m" and "m \<noteq> []"
  shows "error (state (sendMessage_resolved opts response later h)) = Some m"
  using assms by (simp add: sendMessage_resolved_def setState_def orElse_def)

text \<open>
  C7. After a turn whose transport fails in every attempt of the budget, the error in
  the state of the hook is the configured fallback message, whatever the transport
  errors were, with streaming enabled and with streaming disabled.
\<close>

theorem exhausted_retries_fallback:
  assumes "configured h" and "trim content' \<noteq> []"
    and "alwaysFails tr (retries hookErrorHandling)"
  shows "error (state (fst (sendMessage opts tr content' now rnd later h)))
           = Some (fallbackMessage hookErrorHandling)"
proof -
  obtain ci where c: "chatRef (sendMessage_start opts content' now h) = Some ci"
    and e: "errorHandling ci = hookErrorHandling"
    using start_chatRef [OF assms(1,2)] by blast
  let ?call = "ChatInterface_sendMessage (hookRequest opts content') now rnd tr ci"
  have f: "alwaysFails tr (retries (errorHandling ci))" using assms(3) e by simp
  have r: "\<not> success (fst ?call)"
    "resp_error (fst ?call) = Some (fallbackMessage hookErrorHandling)"
    using sendMessage_fails(2,3) [OF f] e by simp_all
  show ?thesis
    using assms(2) c resolved_failure [OF r fallback_nonempty]
    by (simp add: sendMessage_def Let_def split_beta)
qed

theorem exhausted_retries_fallback_witness:
  "configured useGeminiChat \<and> trim ''hi'' \<noteq> []
   \<and> alwaysFails networkDown (retries hookErrorHandling)
   \<and> error (state (fst (sendMessage streamingOn networkDown ''hi'' 5 ''r'' 9 useGeminiChat)))
       = Some (fallbackMessage hookErrorHandling)
   \<and> error (state (fst (sendMessage streamingOff networkDown ''hi'' 5 ''r'' 9 useGeminiChat)))
       = Some (fallbackMessage hookErrorHandling)
   \<and> fallbackMessage hookErrorHandling \<noteq> ''fetch failed''"
proof -
  have t: "trim ''hi'' \<noteq> []" by (simp add: trim_def isWhiteSpace_def)
  have f: "alwaysFails networkDown (retries hookErrorHandling)"
    by (simp add: alwaysFails_def networkDown_def list_all_iff)
  show ?thesis
    using configured_init t f
      exhausted_retries_fallback [OF configured_init t f, of streamingOn 5 "''r''" 9]
      exhausted_retries_fallback [OF configured_init t f, of streamingOff 5 "''r''" 9]
    by (simp add: hookErrorHandling_def)
qed

subsection \<open>The two flags\<close>





subsection \<open>The message committed by a streaming turn\<close>

lemma step_messages_token [simp]: "messages (state (onTokenReceived t h)) = messages (state h)"
  by (simp add: onTokenReceived_def setState_def Let_def)

lemma step_messages_error [simp]: "messages (state (onError e h)) = messages (state h)"
  by (simp add: onError_def setState_def Let_def)

lemma step_messages_complete [simp]:
  "messages (state (onComplete m t h)) = messages (state h) @ [assistantMessage (m, t)]"
  by (simp add: onComplete_def setState_def Let_def assistantMessage_def)

lemma run_delivered_messages:
  "messages (state (run opts h (delivered effs)))
     = messages (state h) @ map assistantMessage (onCompletes effs)"
  by (induction effs arbitrary: h rule: delivered.induct) simp_all

lemma resolved_streaming_success:
  "enableStreaming opts \<Longrightarrow> success response
     \<Longrightarrow> sendMessage_resolved opts response later h = h"
  by (simp add: sendMessage_resolved_def)

lemma hook_handlersReturn: "handlersReturn (hookRequest opts c)"
  by (simp add: handlersReturn_def returns_def hookRequest_def hookCallbacks_def handlerOf_def)

lemma hook_firesOnComplete: "firesOnComplete (hookRequest opts c) = enableStreaming opts"
  by (simp add: firesOnComplete_def hookRequest_def hookCallbacks_def handlerOf_def)

lemma attempt_tokens:
  "onTokens (attemptEffects (hookRequest opts c) mid st (Completes cs t r) ci)
     = (if enableStreaming opts then cs else [])"
  using tryOnce_returns [OF hook_handlersReturn, of opts c mid st cs t r ci]
  by (auto simp: attemptEffects_def hookRequest_def hookCallbacks_def handlerOf_def)

text \<open>
  A loop whose transport throws in the rounds before round \<open>k\<close> and completes in round
  \<open>k\<close>, within the budget, answers with the text of round \<open>k\<close> alone.
\<close>

lemma sendLoop_succeeds:
  assumes "0 \<le> n" and "nat n \<le> k" and "int k < retries (errorHandling ci)"
    and "\<forall>j. nat n \<le> j \<and> j < k \<longrightarrow> fails (tr j)"
    and "tr k = Completes cs t r" and "handlersReturn options"
  shows "success (fst (sendLoop options mid st tr n ci))
       \<and> message (fst (sendLoop options mid st tr n ci)) = Some (concat cs)
       \<and> fst (snd (sendLoop options mid st tr n ci))
           = pushHistory \<lparr>role = Assistant, content = concat cs, timestamp = t,
                           messageId = generateMessageId t r\<rparr> ci
       \<and> onCompletes (snd (snd (sendLoop options mid st tr n ci)))
           = (if firesOnComplete options then [(concat cs, t)] else [])"
  using assms
proof (induction options mid st tr n ci rule: sendLoop.induct)
  case (1 options mid st tr n ci)
  let ?r = "retries (errorHandling ci)"
  have lt: "n < ?r" using "1.prems" by linarith
  show ?case
  proof (cases "nat n = k")
    case True
    obtain resp effs where
      t: "tryOnce options mid st (tr (nat n)) ci
            = Inr (resp, pushHistory \<lparr>role = Assistant, content = concat cs, timestamp = t,
                                 messageId = generateMessageId t r\<rparr> ci, effs)"
      and f: "success resp" "message resp = Some (concat cs)"
        "onCompletes effs = (if firesOnComplete options then [(concat cs, t)] else [])"
      using tryOnce_returns [OF "1.prems"(6), of mid st cs t r ci] True "1.prems"(5) by auto
    show ?thesis using lt t f by simp
  next
    case False
    then have less: "nat n < k" using "1.prems"(2) by simp
    then have "fails (tr (nat n))" using "1.prems"(4) by simp
    then obtain e effs where t: "tryOnce options mid st (tr (nat n)) ci = Inl (e, ci, effs)"
      and c: "onCompletes effs = []"
      using tryOnce_fails by blast
    have more: "\<not> ?r \<le> n + 1" using less "1.prems"(1,3) by linarith
    have p: "\<forall>j. nat (n + 1) \<le> j \<and> j < k \<longrightarrow> fails (tr j)"
      using "1.prems"(1,4) by auto
    have k: "nat (n + 1) \<le> k" using less "1.prems"(1) by linarith
    note ih = "1.IH" [OF lt t refl refl more _ k "1.prems"(3) p "1.prems"(5,6)]
    show ?thesis
      using lt more t c ih "1.prems"(1)
      by (simp add: split_beta onCompletes_append)
  qed
qed

text \<open>
  C3, as the code has it. For every streaming turn that completes successfully, that
  is, whose transport throws in the attempts before attempt \<open>k\<close> and completes in
  attempt \<open>k\<close> within the budget, the turn commits the user message and one assistant
  message whose content is the concatenation, in arrival order, of the chunks that
  attempt \<open>k\<close> delivered through \<open>onToken\<close>. The chunks delivered by the earlier
  attempts, which failed and were retried, are not part of it.
\<close>

theorem streaming_commit:
  assumes "configured h" and "trim content' \<noteq> []" and "enableStreaming opts"
    and "int k < retries hookErrorHandling" and "alwaysFails tr (int k)"
    and "tr k = Completes cs t r"
  shows "messages (state (fst (sendMessage opts tr content' now rnd later h)))
           = messages (state h)
             @ [\<lparr>role = User, content = content', timestamp = now, messageId = UserId now\<rparr>,
                \<lparr>role = Assistant, content = concat cs, timestamp = t,
                 messageId = AssistantId t\<rparr>]
       \<and> onTokens (attemptEffects (hookRequest opts content') mid st (tr k) ci) = cs"
proof -
  obtain ci0 where c: "chatRef (sendMessage_start opts content' now h) = Some ci0"
    and e: "errorHandling ci0 = hookErrorHandling"
    using start_chatRef [OF assms(1,2)] by blast
  let ?h1 = "sendMessage_start opts content' now h"
  let ?user = "\<lparr>role = User, content = content', timestamp = now,
                 messageId = generateMessageId now rnd\<rparr>"
  let ?ci1 = "pushHistory ?user ci0"
  let ?loop = "sendLoop (hookRequest opts content') (generateMessageId now rnd) now tr 0 ?ci1"
  have u: "ChatInterface_sendMessage (hookRequest opts content') now rnd tr ci0 = ?loop"
    by (simp add: ChatInterface_sendMessage_def Let_def hookRequest_def)
  have f: "\<forall>j. nat 0 \<le> j \<and> j < k \<longrightarrow> fails (tr j)"
    using assms(5) by (simp add: alwaysFails_iff)
  have b: "int k < retries (errorHandling ?ci1)" using assms(4) e by simp
  have l: "success (fst ?loop)"
    "onCompletes (snd (snd ?loop)) = [(concat cs, t)]"
    using sendLoop_succeeds [OF _ _ b f assms(6) hook_handlersReturn [of opts content'],
        where mid = "generateMessageId now rnd" and st = now] assms(3)
    by (simp_all add: hook_firesOnComplete)
  have m: "messages (state (fst (sendMessage opts tr content' now rnd later h)))
             = messages (state ?h1) @ [assistantMessage (concat cs, t)]"
    using assms(2,3) c u l
    by (simp add: sendMessage_def Let_def split_beta resolved_streaming_success
        run_delivered_messages)
  show ?thesis
    using m assms(2,3,6)
    by (simp add: start_messages assistantMessage_def attempt_tokens)
qed

theorem streaming_commit_witness:
  "configured useGeminiChat \<and> trim ''hi'' \<noteq> [] \<and> enableStreaming streamingOn
   \<and> int 1 < retries hookErrorHandling \<and> alwaysFails flaky (int 1)
   \<and> flaky 1 = Completes [''Hello'', '' there''] 20 ''s''
   \<and> messages (state (fst (sendMessage streamingOn flaky ''hi'' 5 ''r'' 21 useGeminiChat)))
       = [\<lparr>role = User, content = ''hi'', timestamp = 5, messageId = UserId 5\<rparr>,
          \<lparr>role = Assistant, content = ''Hello there'', timestamp = 20,
           messageId = AssistantId 20\<rparr>]"
proof -
  have t: "trim ''hi'' \<noteq> []" by (simp add: trim_def isWhiteSpace_def)
  have s: "enableStreaming streamingOn" by (simp add: streamingOn_def)
  have b: "int 1 < retries hookErrorHandling" by (simp add: hookErrorHandling_def)
  have f: "alwaysFails flaky (int 1)" by (simp add: alwaysFails_def flaky_def)
  have a: "flaky 1 = Completes [''Hello'', '' there''] 20 ''s''" by (simp add: flaky_def)
  show ?thesis
    using configured_init t s b f a
      streaming_commit [OF configured_init t s b f a, of 5 "''r''" 21]
    by (simp add: useGeminiChat_def)
qed

text \<open>
  The claim as the specification states it fails: against a transport whose first
  attempt delivers a chunk and throws, and whose second attempt completes, the committed
  content is that of the second attempt, not the concatenation of all chunks delivered.
\<close>

theorem streaming_commit_counterexample:
  "messages (state (fst (sendMessage streamingOn flaky ''hi'' 5 ''r'' 21 useGeminiChat)))
     = [\<lparr>role = User, content = ''hi'', timestamp = 5, messageId = UserId 5\<rparr>,
        \<lparr>role = Assistant, content = ''Hello there'', timestamp = 20,
         messageId = AssistantId 20\<rparr>]
   \<and> onTokens (snd (sendMessage streamingOn flaky ''hi'' 5 ''r'' 21 useGeminiChat))
     = [''Hel'', ''Hello'', '' there'']
   \<and> ''Hello there'' \<noteq> concat [''Hel'', ''Hello'', '' there'']"
  by code_simp

subsection \<open>Callbacks that arrive after a stop\<close>

text \<open>
  C1, at a failing input. With streaming enabled, a call delivers the token
  \<open>Hello\<close>, the user stops the stream, and the call, which nothing has told of the
  stop, goes on to deliver the token \<open> there\<close> and its completion. The stop clears the
  buffer and commits nothing; the late token then writes the whole buffer back into the
  state, and the late completion commits an assistant message.
\<close>

theorem callbacks_after_stop_change_state:
  "delivered (snd (snd (ChatInterface_sendMessage (hookRequest streamingOn ''hi'') 1 ''r''
      answers newChatInterface)))
     = [TokenReceived ''Hello'', Progress 5, TokenReceived '' there'', Progress 11,
        Complete ''Hello there'' 20]
   \<and> currentStreamingMessage (state (run streamingOn useGeminiChat
       [SendMessage ''hi'' 1, TokenReceived ''Hello'', Progress 5, StopStreaming])) = []
   \<and> messages (state (run streamingOn useGeminiChat
       [SendMessage ''hi'' 1, TokenReceived ''Hello'', Progress 5, StopStreaming]))
      = [\<lparr>role = User, content = ''hi'', timestamp = 1, messageId = UserId 1\<rparr>]
   \<and> currentStreamingMessage (state (run streamingOn useGeminiChat
       [SendMessage ''hi'' 1, TokenReceived ''Hello'', Progress 5, StopStreaming,
        TokenReceived '' there''])) = ''Hello there''
   \<and> messages (state (run streamingOn useGeminiChat
       [SendMessage ''hi'' 1, TokenReceived ''Hello'', Progress 5, StopStreaming,
        TokenReceived '' there'', Progress 11, Complete ''Hello there'' 20]))
      = [\<lparr>role = User, content = ''hi'', timestamp = 1, messageId = UserId 1\<rparr>,
         \<lparr>role = Assistant, content = ''Hello there'', timestamp = 20,
          messageId = AssistantId 20\<rparr>]"
  by code_simp

subsection \<open>Retrying the last message\<close>

text \<open>
  C4, at a failing input. A first turn for the text \<open>hi\<close> fails in all its attempts
  and leaves the sequence \<open>[u]\<close> with the fallback error. \<open>retryLastMessage\<close> keeps
  \<open>u\<close>, clears the error and sends the content of \<open>u\<close> through \<open>sendMessage\<close>, which
  appends a user message of its own: when the turn succeeds the sequence holds the text
  of \<open>u\<close> twice before the assistant message.
\<close>

theorem retry_repeats_user_message:
  "messages (state (fst (sendMessage streamingOn networkDown ''hi'' 5 ''r'' 9 useGeminiChat)))
     = [\<lparr>role = User, content = ''hi'', timestamp = 5, messageId = UserId 5\<rparr>]
   \<and> error (state (fst (sendMessage streamingOn networkDown ''hi'' 5 ''r'' 9 useGeminiChat)))
     = Some (fallbackMessage hookErrorHandling)
   \<and> messages (state (fst (retryLastMessage streamingOn answers 15 ''q'' 21
        (fst (sendMessage streamingOn networkDown ''hi'' 5 ''r'' 9 useGeminiChat)))))
     = [\<lparr>role = User, content = ''hi'', timestamp = 5, messageId = UserId 5\<rparr>,
        \<lparr>role = User, content = ''hi'', timestamp = 15, messageId = UserId 15\<rparr>,
        \<lparr>role = Assistant, content = ''Hello there'', timestamp = 20,
         messageId = AssistantId 20\<rparr>]
   \<and> error (state (fst (retryLastMessage streamingOn answers 15 ''q'' 21
        (fst (sendMessage streamingOn networkDown ''hi'' 5 ''r'' 9 useGeminiChat))))) = None"
  by code_simp

end
